theory Spec2Isabelle
  imports Main "HOL-Library.Word" "HOL-Library.AList" "HOL-Library.Sublist"
begin

unbundle bit_operations_syntax

section \<open>Python values, exceptions and the outside world\<close>

text \<open>
  \<^verbatim>\<open>scripts/print_memory_stream.py\<close> is dynamically typed: every helper takes and returns
  \<^verbatim>\<open>Any\<close>. The values the script can tell apart are modelled by one datatype.

  \<^item> A Python \<^verbatim>\<open>str\<close> is a list of Unicode code points (\<open>nat\<close>, below \<open>0x110000\<close>);
    \<^verbatim>\<open>bytes\<close> and \<^verbatim>\<open>bytearray\<close> are lists of 8-bit words.
  \<^item> \<open>PDict\<close> is an exact \<^verbatim>\<open>dict\<close>, in insertion order (keys pairwise different).
  \<^item> \<open>PObj attrs callable items\<close> is an instance of any other class (a module, a model
    object, a client, a function or a class): its attributes by name, the identity of the
    code behind it when it is callable, and its items when the class derives from
    \<^verbatim>\<open>dict\<close>.
  \<^item> \<^verbatim>\<open>float\<close> is left out: its JSON text is the shortest round-trip representation of
    a binary floating-point number.

  Identifiers and messages of the script are HOL strings (they are ASCII).
\<close>

type_synonym pystr = "nat list"
type_synonym byte = "8 word"

datatype pyval =
    PNone
  | PBool bool
  | PInt int
  | PStr pystr
  | PBytes "byte list"
  | PByteArray "byte list"
  | PList "pyval list"
  | PDict "(pyval \<times> pyval) list"
  | PObj "(string \<times> pyval) list" "nat option" "(pyval \<times> pyval) list option"

definition str_of :: "string \<Rightarrow> pystr" where
  "str_of s = map of_char s"

text \<open>
  Exceptions. \<^verbatim>\<open>SystemExit\<close> carries its argument; every other exception is identified
  by its class. \<^verbatim>\<open>ModuleNotFoundError\<close> derives from \<^verbatim>\<open>ImportError\<close>;
  \<^verbatim>\<open>binascii.Error\<close> and the three Unicode errors derive from \<^verbatim>\<open>ValueError\<close>.
\<close>

datatype exit_arg = ExitNone | ExitCode int | ExitMsg string

datatype exc_class =
    ImportError | ModuleNotFoundError | LookupError
  | UnicodeError | UnicodeDecodeError | UnicodeEncodeError
  | BinasciiError | ValueError | TypeError | AttributeError
  | OtherException string

datatype py_exc = SystemExit exit_arg | Raised exc_class

definition bind_exc :: "'e + 'a \<Rightarrow> ('a \<Rightarrow> 'e + 'b) \<Rightarrow> 'e + 'b" where
  "bind_exc r f = (case r of Inl e \<Rightarrow> Inl e | Inr x \<Rightarrow> f x)"

definition lift_exc :: "exc_class + 'a \<Rightarrow> py_exc + 'a" where
  "lift_exc r = (case r of Inl c \<Rightarrow> Inl (Raised c) | Inr x \<Rightarrow> Inr x)"

text \<open>
  A text codec, as \<^verbatim>\<open>str.encode\<close> and \<^verbatim>\<open>bytes.decode\<close> use it with
  \<^verbatim>\<open>errors="strict"\<close>.
\<close>

record codec =
  encode :: "pystr \<Rightarrow> exc_class + byte list"
  decode :: "byte list \<Rightarrow> exc_class + pystr"

text \<open>
  What a run of the script depends on and does not contain: the command line, the outcome
  of \<^verbatim>\<open>import galactic_console_client\<close>, the behaviour of the code behind every callable
  of that package (positional arguments, keyword arguments), and the interpreter's codec
  registry.
\<close>

record world =
  sys_argv :: "string list"
  import_module :: "py_exc + pyval"
  call :: "nat \<Rightarrow> pyval list \<Rightarrow> (string \<times> pyval) list \<Rightarrow> py_exc + pyval"
  codecs :: "string \<Rightarrow> codec option"

section \<open>Attribute access, calls and item access\<close>

text \<open>
  \<open>py_getattr v n\<close> is \<open>Some x\<close> when \<^verbatim>\<open>hasattr(v, n)\<close> holds and \<^verbatim>\<open>getattr(v, n)\<close> is
  \<open>x\<close>. The built-in types have none of the attribute names the script asks for
  (\<^verbatim>\<open>system\<close>, \<^verbatim>\<open>getSystem\<close>, \<^verbatim>\<open>memory_stream\<close>, \<^verbatim>\<open>Configuration\<close>, \<^verbatim>\<open>host\<close>, ...),
  so only \<open>PObj\<close> answers.
\<close>

fun py_getattr :: "pyval \<Rightarrow> string \<Rightarrow> pyval option" where
  "py_getattr (PObj as c d) n = map_of as n"
| "py_getattr _ n = None"

definition hasattr :: "pyval \<Rightarrow> string \<Rightarrow> bool" where
  "hasattr v n = (py_getattr v n \<noteq> None)"

text \<open>\<^verbatim>\<open>getattr(v, n, default)\<close>\<close>

definition getattr_default :: "pyval \<Rightarrow> string \<Rightarrow> pyval \<Rightarrow> pyval" where
  "getattr_default v n d = (case py_getattr v n of None \<Rightarrow> d | Some x \<Rightarrow> x)"

fun callable :: "pyval \<Rightarrow> bool" where
  "callable (PObj as (Some f) d) = True"
| "callable _ = False"

text \<open>\<^verbatim>\<open>v(*args, **kwargs)\<close>: calling what is not callable raises \<^verbatim>\<open>TypeError\<close>.\<close>

fun py_call :: "world \<Rightarrow> pyval \<Rightarrow> pyval list \<Rightarrow> (string \<times> pyval) list \<Rightarrow> py_exc + pyval" where
  "py_call w (PObj as (Some f) d) args kwargs = call w f args kwargs"
| "py_call w _ args kwargs = Inl (Raised TypeError)"

text \<open>\<^verbatim>\<open>isinstance(v, dict)\<close>, with the items.\<close>

fun dict_items :: "pyval \<Rightarrow> (pyval \<times> pyval) list option" where
  "dict_items (PDict kvs) = Some kvs"
| "dict_items (PObj as c d) = d"
| "dict_items _ = None"

section \<open>\<^verbatim>\<open>_call_get_system\<close>\<close>

text \<open>
  \<^verbatim>\<open>
  candidate_objects = [client]
  for attr_name in ("system", "systems", "console"):
      nested = getattr(client, attr_name, None)
      if nested is not None:
          candidate_objects.append(nested)
  for obj in candidate_objects:
      for name in ("getSystem", "get_system"):
          method = getattr(obj, name, None)
          if callable(method):
              return method()
  raise SystemExit("Unable to locate a 'getSystem' call on the client.")
  \<close>
\<close>

fun nested_objects :: "pyval \<Rightarrow> string list \<Rightarrow> pyval list" where
  "nested_objects client [] = []"
| "nested_objects client (attr_name # rest) =
     (let nested = getattr_default client attr_name PNone
      in if nested \<noteq> PNone then nested # nested_objects client rest
         else nested_objects client rest)"

definition nested_names :: "string list" where
  "nested_names = [''system'', ''systems'', ''console'']"

definition method_names :: "string list" where
  "method_names = [''getSystem'', ''get_system'']"

definition candidate_objects :: "pyval \<Rightarrow> pyval list" where
  "candidate_objects client = client # nested_objects client nested_names"

fun first_method_on :: "pyval \<Rightarrow> string list \<Rightarrow> pyval option" where
  "first_method_on obj [] = None"
| "first_method_on obj (name # rest) =
     (let method = getattr_default obj name PNone
      in if callable method then Some method else first_method_on obj rest)"

fun first_method :: "pyval list \<Rightarrow> pyval option" where
  "first_method [] = None"
| "first_method (obj # rest) =
     (case first_method_on obj method_names of
        Some method \<Rightarrow> Some method
      | None \<Rightarrow> first_method rest)"

definition call_get_system :: "world \<Rightarrow> pyval \<Rightarrow> py_exc + pyval" where
  "call_get_system w client =
     (case first_method (candidate_objects client) of
        Some method \<Rightarrow> py_call w method [] []
      | None \<Rightarrow> Inl (SystemExit (ExitMsg ''Unable to locate a 'getSystem' call on the client.'')))"

section \<open>\<^verbatim>\<open>_extract_memory_stream\<close>\<close>

text \<open>
  \<^verbatim>\<open>
  if system_payload is None:
      raise SystemExit("The getSystem call returned no data.")
  for attr_name in ("memory_stream", "memoryStream", "memory"):
      if hasattr(system_payload, attr_name):
          return getattr(system_payload, attr_name)
  if isinstance(system_payload, dict):
      for key in ("memory_stream", "memoryStream", "memory", "memory_streams"):
          if key in system_payload:
              return system_payload[key]
  raise SystemExit("The system payload does not contain a memory stream.")
  \<close>
\<close>

fun first_attr :: "pyval \<Rightarrow> string list \<Rightarrow> pyval option" where
  "first_attr p [] = None"
| "first_attr p (attr_name # rest) =
     (if hasattr p attr_name then py_getattr p attr_name else first_attr p rest)"

text \<open>\<^verbatim>\<open>key in d\<close> and \<^verbatim>\<open>d[key]\<close> for a \<^verbatim>\<open>str\<close> key.\<close>

definition dict_get :: "(pyval \<times> pyval) list \<Rightarrow> string \<Rightarrow> pyval option" where
  "dict_get kvs key = map_of kvs (PStr (str_of key))"

fun first_key :: "(pyval \<times> pyval) list \<Rightarrow> string list \<Rightarrow> pyval option" where
  "first_key kvs [] = None"
| "first_key kvs (key # rest) =
     (if dict_get kvs key \<noteq> None then dict_get kvs key else first_key kvs rest)"

definition attr_names :: "string list" where
  "attr_names = [''memory_stream'', ''memoryStream'', ''memory'']"

definition key_names :: "string list" where
  "key_names = [''memory_stream'', ''memoryStream'', ''memory'', ''memory_streams'']"

definition no_memory_stream :: py_exc where
  "no_memory_stream = SystemExit (ExitMsg ''The system payload does not contain a memory stream.'')"

definition extract_memory_stream :: "pyval \<Rightarrow> py_exc + pyval" where
  "extract_memory_stream system_payload =
     (if system_payload = PNone
      then Inl (SystemExit (ExitMsg ''The getSystem call returned no data.''))
      else case first_attr system_payload attr_names of
        Some v \<Rightarrow> Inr v
      | None \<Rightarrow>
          (case dict_items system_payload of
             Some kvs \<Rightarrow>
               (case first_key kvs key_names of
                  Some v \<Rightarrow> Inr v
                | None \<Rightarrow> Inl no_memory_stream)
           | None \<Rightarrow> Inl no_memory_stream))"

section \<open>\<^verbatim>\<open>_create_client\<close>\<close>

text \<open>
  Attribute and item assignment. Objects are values here, so an assignment returns the
  changed object. Instances of ordinary classes accept any attribute; the built-in types
  raise \<^verbatim>\<open>AttributeError\<close>. Item assignment with a \<^verbatim>\<open>str\<close> key works on \<^verbatim>\<open>dict\<close> and
  its subclasses and raises \<^verbatim>\<open>TypeError\<close> elsewhere.
\<close>

fun py_setattr :: "pyval \<Rightarrow> string \<Rightarrow> pyval \<Rightarrow> py_exc + pyval" where
  "py_setattr (PObj as c d) n v = Inr (PObj (AList.update n v as) c d)"
| "py_setattr _ n v = Inl (Raised AttributeError)"

fun py_setitem :: "pyval \<Rightarrow> pyval \<Rightarrow> pyval \<Rightarrow> py_exc + pyval" where
  "py_setitem (PDict kvs) k v = Inr (PDict (AList.update k v kvs))"
| "py_setitem (PObj as c (Some kvs)) k v = Inr (PObj as c (Some (AList.update k v kvs)))"
| "py_setitem _ k v = Inl (Raised TypeError)"

text \<open>\<^verbatim>\<open>if base_url:\<close> for a value that is \<^verbatim>\<open>None\<close> or a \<^verbatim>\<open>str\<close>.\<close>

fun truthy :: "string option \<Rightarrow> bool" where
  "truthy None = False"
| "truthy (Some s) = (s \<noteq> [])"

fun opt_str :: "string option \<Rightarrow> pyval" where
  "opt_str None = PNone"
| "opt_str (Some s) = PStr (str_of s)"

text \<open>
  \<^verbatim>\<open>
  kwargs = {}
  if base_url: kwargs["base_url"] = base_url
  if api_key:  kwargs["api_key"] = api_key
  \<close>
\<close>

definition client_kwargs :: "string option \<Rightarrow> string option \<Rightarrow> (string \<times> pyval) list" where
  "client_kwargs base_url api_key =
     (if truthy base_url then [(''base_url'', opt_str base_url)] else []) @
     (if truthy api_key then [(''api_key'', opt_str api_key)] else [])"

text \<open>
  \<^verbatim>\<open>
  configuration = client_module.Configuration()
  if base_url:
      configuration.host = base_url
  if api_key:
      configuration.api_key = getattr(configuration, "api_key", {})
      configuration.api_key["api_key"] = api_key
  \<close>
\<close>

definition configure :: "pyval \<Rightarrow> string option \<Rightarrow> string option \<Rightarrow> py_exc + pyval" where
  "configure configuration base_url api_key =
     bind_exc
       (if truthy base_url then py_setattr configuration ''host'' (opt_str base_url)
        else Inr configuration)
       (\<lambda>configuration.
          if truthy api_key then
            (let keys = getattr_default configuration ''api_key'' (PDict [])
             in bind_exc (py_setattr configuration ''api_key'' keys) (\<lambda>configuration.
                bind_exc (py_setitem keys (PStr (str_of ''api_key'')) (opt_str api_key)) (\<lambda>keys.
                py_setattr configuration ''api_key'' keys)))
          else Inr configuration)"

text \<open>
  \<^verbatim>\<open>
  for attr_name in ("SystemApi", "SystemsApi", "DefaultApi"):
      api = getattr(client_module, attr_name, None)
      if api is not None:
          return api(api_client)
  return api_client
  \<close>
\<close>

fun wrap_api :: "world \<Rightarrow> pyval \<Rightarrow> pyval \<Rightarrow> string list \<Rightarrow> py_exc + pyval" where
  "wrap_api w client_module api_client [] = Inr api_client"
| "wrap_api w client_module api_client (attr_name # rest) =
     (let api = getattr_default client_module attr_name PNone
      in if api \<noteq> PNone then py_call w api [api_client] []
         else wrap_api w client_module api_client rest)"

definition api_names :: "string list" where
  "api_names = [''SystemApi'', ''SystemsApi'', ''DefaultApi'']"

definition create_client :: "world \<Rightarrow> pyval \<Rightarrow> string option \<Rightarrow> string option \<Rightarrow> py_exc + pyval" where
  "create_client w client_module base_url api_key =
     (case py_getattr client_module ''GalacticConsoleClient'' of
        Some cls \<Rightarrow> py_call w cls [] (client_kwargs base_url api_key)
      | None \<Rightarrow>
          (case (py_getattr client_module ''Configuration'', py_getattr client_module ''ApiClient'') of
             (Some configuration_cls, Some api_client_cls) \<Rightarrow>
               bind_exc (py_call w configuration_cls [] []) (\<lambda>configuration.
               bind_exc (configure configuration base_url api_key) (\<lambda>configuration.
               bind_exc (py_call w api_client_cls [configuration] []) (\<lambda>api_client.
               wrap_api w client_module api_client api_names)))
           | _ \<Rightarrow> Inr client_module))"

section \<open>Text codecs, Base64 and JSON of the standard library\<close>

text \<open>
  UTF-8 as CPython decodes it. \<open>utf8_next\<close> looks at the head of a non-empty input and
  either decodes one code point from the first \<open>n\<close> bytes or reports a malformed
  sequence of \<open>n\<close> bytes: an invalid start byte is one byte, an invalid continuation byte
  ends the sequence before it, and a sequence cut off by the end of the input is all of
  what is left. Overlong forms, surrogates and code points above \<open>0x10FFFF\<close> are rejected
  at the second byte.
\<close>

datatype utf8_step = Decoded nat nat | Malformed nat

definition is_cont :: "byte \<Rightarrow> bool" where
  "is_cont b = (0x80 \<le> b \<and> b < 0xC0)"

definition cont_bits :: "byte \<Rightarrow> nat" where
  "cont_bits b = unat (b AND 0x3F)"

fun utf8_next :: "byte list \<Rightarrow> utf8_step" where
  "utf8_next [] = Malformed 0"
| "utf8_next (ch # rest) =
     (if ch < 0x80 then Decoded (unat ch) 1
      else if ch < 0xC2 then Malformed 1
      else if ch < 0xE0 then
        (case rest of
           [] \<Rightarrow> Malformed 1
         | ch2 # _ \<Rightarrow>
             if \<not> is_cont ch2 then Malformed 1
             else Decoded (unat (ch AND 0x1F) * 64 + cont_bits ch2) 2)
      else if ch < 0xF0 then
        (case rest of
           [] \<Rightarrow> Malformed 1
         | ch2 # rest2 \<Rightarrow>
             if \<not> is_cont ch2 \<or> (if ch2 < 0xA0 then ch = 0xE0 else ch = 0xED) then Malformed 1
             else (case rest2 of
                     [] \<Rightarrow> Malformed 2
                   | ch3 # _ \<Rightarrow>
                       if \<not> is_cont ch3 then Malformed 2
                       else Decoded (unat (ch AND 0x0F) * 4096 + cont_bits ch2 * 64 + cont_bits ch3) 3))
      else if ch < 0xF5 then
        (case rest of
           [] \<Rightarrow> Malformed 1
         | ch2 # rest2 \<Rightarrow>
             if \<not> is_cont ch2 \<or> (if ch2 < 0x90 then ch = 0xF0 else ch = 0xF4) then Malformed 1
             else (case rest2 of
                     [] \<Rightarrow> Malformed 2
                   | ch3 # rest3 \<Rightarrow>
                       if \<not> is_cont ch3 then Malformed 2
                       else (case rest3 of
                               [] \<Rightarrow> Malformed 3
                             | ch4 # _ \<Rightarrow>
                                 if \<not> is_cont ch4 then Malformed 3
                                 else Decoded (unat (ch AND 0x07) * 262144 + cont_bits ch2 * 4096
                                               + cont_bits ch3 * 64 + cont_bits ch4) 4)))
      else Malformed 1)"

text \<open>\<^verbatim>\<open>raw.decode("utf-8", errors="replace")\<close>: one \<open>U+FFFD\<close> for each malformed sequence.\<close>

fun utf8_decode_replace :: "byte list \<Rightarrow> pystr" where
  "utf8_decode_replace [] = []"
| "utf8_decode_replace (b # bs) =
     (case utf8_next (b # bs) of
        Decoded cp n \<Rightarrow> cp # utf8_decode_replace (drop (n - 1) bs)
      | Malformed n \<Rightarrow> 0xFFFD # utf8_decode_replace (drop (n - 1) bs))"

text \<open>\<^verbatim>\<open>raw.decode("utf-8")\<close>: the first malformed sequence raises.\<close>

fun utf8_decode :: "byte list \<Rightarrow> exc_class + pystr" where
  "utf8_decode [] = Inr []"
| "utf8_decode (b # bs) =
     (case utf8_next (b # bs) of
        Decoded cp n \<Rightarrow> bind_exc (utf8_decode (drop (n - 1) bs)) (\<lambda>s. Inr (cp # s))
      | Malformed n \<Rightarrow> Inl UnicodeDecodeError)"

text \<open>
  \<^verbatim>\<open>s.encode("utf-8")\<close>: a surrogate cannot be encoded. (A value from \<open>0x110000\<close> on is
  not a code point and cannot occur in a \<^verbatim>\<open>str\<close>.)
\<close>

definition utf8_encode_char :: "nat \<Rightarrow> exc_class + byte list" where
  "utf8_encode_char cp =
     (if cp < 0x80 then Inr [of_nat cp]
      else if cp < 0x800 then Inr [of_nat (0xC0 + cp div 64), of_nat (0x80 + cp mod 64)]
      else if 0xD800 \<le> cp \<and> cp < 0xE000 then Inl UnicodeEncodeError
      else if cp < 0x10000 then
        Inr [of_nat (0xE0 + cp div 4096), of_nat (0x80 + cp div 64 mod 64), of_nat (0x80 + cp mod 64)]
      else if cp < 0x110000 then
        Inr [of_nat (0xF0 + cp div 262144), of_nat (0x80 + cp div 4096 mod 64),
             of_nat (0x80 + cp div 64 mod 64), of_nat (0x80 + cp mod 64)]
      else Inl UnicodeEncodeError)"

fun utf8_encode :: "pystr \<Rightarrow> exc_class + byte list" where
  "utf8_encode [] = Inr []"
| "utf8_encode (cp # s) =
     bind_exc (utf8_encode_char cp) (\<lambda>bs. bind_exc (utf8_encode s) (\<lambda>rest. Inr (bs @ rest)))"

text \<open>ASCII and Latin-1: one byte for one code point, below 128 and below 256.\<close>

definition single_byte_encode :: "nat \<Rightarrow> pystr \<Rightarrow> exc_class + byte list" where
  "single_byte_encode limit s =
     (if \<forall>cp \<in> set s. cp < limit then Inr (map of_nat s) else Inl UnicodeEncodeError)"

definition single_byte_decode :: "nat \<Rightarrow> byte list \<Rightarrow> exc_class + pystr" where
  "single_byte_decode limit bs =
     (if \<forall>b \<in> set bs. unat b < limit then Inr (map unat bs) else Inl UnicodeDecodeError)"

definition utf8_codec :: codec where
  "utf8_codec = \<lparr>encode = utf8_encode, decode = utf8_decode\<rparr>"

definition ascii_codec :: codec where
  "ascii_codec = \<lparr>encode = single_byte_encode 128, decode = single_byte_decode 128\<rparr>"

definition latin1_codec :: codec where
  "latin1_codec = \<lparr>encode = single_byte_encode 256, decode = single_byte_decode 256\<rparr>"

text \<open>A codec registry that knows these three codecs under their usual names.\<close>

definition three_codecs :: "string \<Rightarrow> codec option" where
  "three_codecs name =
     (if name = ''utf-8'' then Some utf8_codec
      else if name = ''ascii'' then Some ascii_codec
      else if name = ''latin-1'' then Some latin1_codec
      else None)"

text \<open>
  \<^verbatim>\<open>base64.b64decode(s, validate=True)\<close> on a \<^verbatim>\<open>str\<close>, as in CPython 3.11: the text is
  encoded as ASCII (\<^verbatim>\<open>ValueError\<close> when it is not ASCII) and handed to
  \<^verbatim>\<open>binascii.a2b_base64(s, strict_mode=True)\<close>, which raises \<^verbatim>\<open>binascii.Error\<close> on a
  character outside the alphabet, on padding at the start, on data after or inside the
  padding, and on an incomplete final group.
\<close>

definition table_a2b_base64 :: "nat \<Rightarrow> nat option" where
  "table_a2b_base64 c =
     (if 65 \<le> c \<and> c \<le> 90 then Some (c - 65)
      else if 97 \<le> c \<and> c \<le> 122 then Some (c - 71)
      else if 48 \<le> c \<and> c \<le> 57 then Some (c + 4)
      else if c = 43 then Some 62
      else if c = 47 then Some 63
      else None)"

text \<open>
  The loop of \<^verbatim>\<open>a2b_base64\<close>. Arguments after the remaining input: \<^verbatim>\<open>quad_pos\<close>,
  \<^verbatim>\<open>leftchar\<close>, \<^verbatim>\<open>pads\<close>, \<^verbatim>\<open>padding_started\<close> and the bytes written so far.
\<close>

fun a2b_loop :: "nat list \<Rightarrow> nat \<Rightarrow> nat \<Rightarrow> nat \<Rightarrow> bool \<Rightarrow> byte list \<Rightarrow> exc_class + byte list" where
  "a2b_loop [] quad_pos leftchar pads padding_started out =
     (if quad_pos \<noteq> 0 then Inl BinasciiError else Inr out)"
| "a2b_loop (c # rest) quad_pos leftchar pads padding_started out =
     (if c = 61 then
        (if quad_pos \<ge> 2 \<and> quad_pos + (pads + 1) \<ge> 4
         then (if rest \<noteq> [] then Inl BinasciiError else Inr out)
         else a2b_loop rest quad_pos leftchar (if quad_pos \<ge> 2 then pads + 1 else pads) True out)
      else
        (case table_a2b_base64 c of
           None \<Rightarrow> Inl BinasciiError
         | Some this_ch \<Rightarrow>
             if padding_started then Inl BinasciiError
             else if quad_pos = 0 then a2b_loop rest 1 this_ch 0 False out
             else if quad_pos = 1 then
               a2b_loop rest 2 (this_ch mod 16) 0 False (out @ [of_nat (leftchar * 4 + this_ch div 16)])
             else if quad_pos = 2 then
               a2b_loop rest 3 (this_ch mod 4) 0 False (out @ [of_nat (leftchar * 16 + this_ch div 4)])
             else
               a2b_loop rest 0 0 0 False (out @ [of_nat (leftchar * 64 + this_ch)])))"

definition a2b_base64_strict :: "nat list \<Rightarrow> exc_class + byte list" where
  "a2b_base64_strict s =
     (if s \<noteq> [] \<and> hd s = 61 then Inl BinasciiError else a2b_loop s 0 0 0 False [])"

definition b64decode_validate :: "pystr \<Rightarrow> exc_class + byte list" where
  "b64decode_validate s =
     (if \<forall>cp \<in> set s. cp < 128 then a2b_base64_strict s else Inl ValueError)"

text \<open>
  \<^verbatim>\<open>json.dumps(v, ensure_ascii=False)\<close>. Text is quoted with the two-character escapes
  for the quote, the backslash and \<^verbatim>\<open>\b \f \n \r \t\<close>, and \<^verbatim>\<open>\u00XX\<close> for the other
  control characters; everything else is kept as it is. Items are separated by a comma
  and a space, keys from values by a colon and a space. A key is \<^verbatim>\<open>str\<close>, \<^verbatim>\<open>int\<close>,
  \<^verbatim>\<open>bool\<close> or \<^verbatim>\<open>None\<close>. \<^verbatim>\<open>bytes\<close>, \<^verbatim>\<open>bytearray\<close> and instances of classes unknown
  to the encoder raise \<^verbatim>\<open>TypeError\<close>. An integer of more than 4300 digits raises
  \<^verbatim>\<open>ValueError\<close> (the interpreter's default limit on integer to text conversion).
\<close>

fun digits :: "nat \<Rightarrow> string" where
  "digits n = (if n < 10 then [char_of (48 + n)] else digits (n div 10) @ [char_of (48 + n mod 10)])"

definition int_repr :: "int \<Rightarrow> exc_class + pystr" where
  "int_repr i =
     (let ds = digits (nat \<bar>i\<bar>)
      in if length ds > 4300 then Inl ValueError
         else Inr (str_of (if i < 0 then CHR ''-'' # ds else ds)))"

definition hex_digit :: "nat \<Rightarrow> char" where
  "hex_digit n = (if n < 10 then char_of (48 + n) else char_of (87 + n))"

definition escape_char :: "nat \<Rightarrow> pystr" where
  "escape_char cp =
     (if cp = 34 then str_of [CHR 0x5C, CHR 0x22]
      else if cp = 92 then str_of [CHR 0x5C, CHR 0x5C]
      else if cp = 8 then str_of [CHR 0x5C, CHR ''b'']
      else if cp = 12 then str_of [CHR 0x5C, CHR ''f'']
      else if cp = 10 then str_of [CHR 0x5C, CHR ''n'']
      else if cp = 13 then str_of [CHR 0x5C, CHR ''r'']
      else if cp = 9 then str_of [CHR 0x5C, CHR ''t'']
      else if cp < 32 then
        str_of [CHR 0x5C, CHR ''u'', CHR ''0'', CHR ''0'', hex_digit (cp div 16), hex_digit (cp mod 16)]
      else [cp])"

definition encode_basestring :: "pystr \<Rightarrow> pystr" where
  "encode_basestring s = [34] @ concat (map escape_char s) @ [34]"

fun join_str :: "pystr \<Rightarrow> pystr list \<Rightarrow> pystr" where
  "join_str sep [] = []"
| "join_str sep [x] = x"
| "join_str sep (x # y # ys) = x @ sep @ join_str sep (y # ys)"

fun key_text :: "pyval \<Rightarrow> exc_class + pystr" where
  "key_text (PStr s) = Inr s"
| "key_text (PBool b) = Inr (str_of (if b then ''true'' else ''false''))"
| "key_text PNone = Inr (str_of ''null'')"
| "key_text (PInt i) = int_repr i"
| "key_text _ = Inl TypeError"

fun json_dumps :: "pyval \<Rightarrow> exc_class + pystr"
  and json_list :: "pyval list \<Rightarrow> exc_class + pystr list"
  and json_dict :: "(pyval \<times> pyval) list \<Rightarrow> exc_class + pystr list"
where
  "json_dumps PNone = Inr (str_of ''null'')"
| "json_dumps (PBool b) = Inr (str_of (if b then ''true'' else ''false''))"
| "json_dumps (PInt i) = int_repr i"
| "json_dumps (PStr s) = Inr (encode_basestring s)"
| "json_dumps (PBytes b) = Inl TypeError"
| "json_dumps (PByteArray b) = Inl TypeError"
| "json_dumps (PList xs) =
     bind_exc (json_list xs) (\<lambda>items. Inr (str_of ''['' @ join_str (str_of '', '') items @ str_of '']''))"
| "json_dumps (PDict kvs) =
     bind_exc (json_dict kvs) (\<lambda>items. Inr (str_of ''{'' @ join_str (str_of '', '') items @ str_of ''}''))"
| "json_dumps (PObj as c None) = Inl TypeError"
| "json_dumps (PObj as c (Some kvs)) =
     bind_exc (json_dict kvs) (\<lambda>items. Inr (str_of ''{'' @ join_str (str_of '', '') items @ str_of ''}''))"
| "json_list [] = Inr []"
| "json_list (x # xs) =
     bind_exc (json_dumps x) (\<lambda>item. bind_exc (json_list xs) (\<lambda>items. Inr (item # items)))"
| "json_dict [] = Inr []"
| "json_dict ((k, v) # kvs) =
     bind_exc (key_text k) (\<lambda>key.
     bind_exc (json_dumps v) (\<lambda>item.
     bind_exc (json_dict kvs) (\<lambda>items.
       Inr ((encode_basestring key @ str_of '': '' @ item) # items))))"

section \<open>\<^verbatim>\<open>_decode_memory_stream\<close>\<close>

text \<open>\<^verbatim>\<open>s.encode(encoding)\<close> and \<^verbatim>\<open>raw.decode(encoding)\<close>: an unknown name raises \<^verbatim>\<open>LookupError\<close>.\<close>

definition py_encode :: "world \<Rightarrow> string \<Rightarrow> pystr \<Rightarrow> py_exc + byte list" where
  "py_encode w encoding s =
     (case codecs w encoding of
        None \<Rightarrow> Inl (Raised LookupError)
      | Some c \<Rightarrow> lift_exc (encode c s))"

definition py_decode :: "world \<Rightarrow> string \<Rightarrow> byte list \<Rightarrow> py_exc + pystr" where
  "py_decode w encoding raw =
     (case codecs w encoding of
        None \<Rightarrow> Inl (Raised LookupError)
      | Some c \<Rightarrow> lift_exc (decode c raw))"

text \<open>\<^verbatim>\<open>except (binascii.Error, ValueError)\<close> also catches the subclasses of \<^verbatim>\<open>ValueError\<close>.\<close>

definition is_value_error :: "exc_class \<Rightarrow> bool" where
  "is_value_error e =
     (e \<in> {ValueError, BinasciiError, UnicodeError, UnicodeDecodeError, UnicodeEncodeError})"

text \<open>
  \<^verbatim>\<open>
  if isinstance(memory_stream, (bytes, bytearray)):
      raw_bytes = bytes(memory_stream)
  elif isinstance(memory_stream, str):
      try:
          raw_bytes = base64.b64decode(memory_stream, validate=True)
      except (binascii.Error, ValueError):
          raw_bytes = memory_stream.encode(encoding, errors="strict")
  else:
      raw_bytes = json.dumps(memory_stream, ensure_ascii=False).encode(encoding)
  \<close>
\<close>

fun raw_bytes :: "world \<Rightarrow> pyval \<Rightarrow> string \<Rightarrow> py_exc + byte list" where
  "raw_bytes w (PBytes b) encoding = Inr b"
| "raw_bytes w (PByteArray b) encoding = Inr b"
| "raw_bytes w (PStr s) encoding =
     (case b64decode_validate s of
        Inr b \<Rightarrow> Inr b
      | Inl e \<Rightarrow> if is_value_error e then py_encode w encoding s else Inl (Raised e))"
| "raw_bytes w v encoding = bind_exc (lift_exc (json_dumps v)) (py_encode w encoding)"

text \<open>
  \<^verbatim>\<open>
  try:
      return raw_bytes.decode(encoding)
  except UnicodeDecodeError:
      return raw_bytes.decode("utf-8", errors="replace")
  \<close>
\<close>

definition decode_raw :: "world \<Rightarrow> string \<Rightarrow> byte list \<Rightarrow> py_exc + pystr" where
  "decode_raw w encoding raw =
     (case py_decode w encoding raw of
        Inl e \<Rightarrow> if e = Raised UnicodeDecodeError then Inr (utf8_decode_replace raw) else Inl e
      | Inr s \<Rightarrow> Inr s)"

definition decode_memory_stream :: "world \<Rightarrow> pyval \<Rightarrow> string \<Rightarrow> py_exc + pystr" where
  "decode_memory_stream w memory_stream encoding =
     bind_exc (raw_bytes w memory_stream encoding) (decode_raw w encoding)"

section \<open>\<^verbatim>\<open>parse_args\<close>\<close>

text \<open>
  \<^verbatim>\<open>
  parser = argparse.ArgumentParser(description=__doc__)
  parser.add_argument("--base-url", dest="base_url", help=...)
  parser.add_argument("--api-key", dest="api_key", help=...)
  parser.add_argument("--encoding", default="utf-8", help=...)
  return parser.parse_args(argv)
  \<close>
  The parser is \<^verbatim>\<open>argparse\<close> with its defaults, as in CPython 3.11: the help option
  \<^verbatim>\<open>-h\<close>/\<^verbatim>\<open>--help\<close> is added, long options may be abbreviated, and a value may be
  attached with \<^verbatim>\<open>=\<close>. Command-line arguments are HOL strings (characters up to 255).
\<close>

record args =
  base_url :: "string option"
  api_key :: "string option"
  encoding :: string

datatype action = Help | StoreBaseUrl | StoreApiKey | StoreEncoding

text \<open>\<^verbatim>\<open>parser._option_string_actions\<close>, in the order the options were added.\<close>

definition option_string_actions :: "(string \<times> action) list" where
  "option_string_actions =
     [(''-h'', Help), (''--help'', Help), (''--base-url'', StoreBaseUrl),
      (''--api-key'', StoreApiKey), (''--encoding'', StoreEncoding)]"

text \<open>\<^verbatim>\<open>s.partition('=')\<close>: the text before the first \<^verbatim>\<open>=\<close>, and the text after it if there is one.\<close>

fun partition_eq :: "string \<Rightarrow> string \<times> string option" where
  "partition_eq [] = ([], None)"
| "partition_eq (c # cs) =
     (if c = CHR ''='' then ([], Some cs)
      else (case partition_eq cs of (before, after) \<Rightarrow> (c # before, after)))"

fun startswith :: "string \<Rightarrow> string \<Rightarrow> bool" where
  "startswith s [] = True"
| "startswith [] (p # ps) = False"
| "startswith (c # cs) (p # ps) = (c = p \<and> startswith cs ps)"

text \<open>
  An option tuple of \<^verbatim>\<open>argparse\<close>: the action (if the option is known), the option
  string, the separator and the explicit argument.
\<close>

datatype option_tuple = OptionTuple "action option" string "string option" "string option"

text \<open>
  \<^verbatim>\<open>_get_option_tuples\<close>, called on a string of at least two characters that starts
  with \<^verbatim>\<open>-\<close>. A string starting with \<^verbatim>\<open>--\<close> is split at \<^verbatim>\<open>=\<close> and matches every option
  string it is a prefix of; a string starting with one \<^verbatim>\<open>-\<close> matches an option string
  equal to its first two characters (the rest is the explicit argument) or an option string
  it is a prefix of.
\<close>

definition get_option_tuples :: "string \<Rightarrow> option_tuple list" where
  "get_option_tuples option_string =
     (case option_string of
        c0 # c1 # rest \<Rightarrow>
          if c1 = CHR ''-'' then
            (case partition_eq option_string of
               (option_prefix, explicit_arg) \<Rightarrow>
                 concat (map (\<lambda>(s, a).
                   if startswith s option_prefix
                   then [OptionTuple (Some a) s (if explicit_arg = None then None else Some ''='') explicit_arg]
                   else []) option_string_actions))
          else
            concat (map (\<lambda>(s, a).
              if s = [c0, c1] then [OptionTuple (Some a) s (Some []) (Some rest)]
              else if startswith s option_string then [OptionTuple (Some a) s None None]
              else []) option_string_actions)
      | _ \<Rightarrow> [])"

text \<open>
  \<^verbatim>\<open>_negative_number_matcher\<close> is \<^verbatim>\<open>^-\d+$|^-\d*\.\d+$\<close>, used with \<^verbatim>\<open>match\<close>; \<^verbatim>\<open>$\<close> also
  matches before a newline that ends the string.
\<close>

definition is_digit :: "char \<Rightarrow> bool" where
  "is_digit c = (48 \<le> (of_char c :: nat) \<and> (of_char c :: nat) \<le> 57)"

definition negative_number :: "string \<Rightarrow> bool" where
  "negative_number s =
     (case s of
        [] \<Rightarrow> False
      | c # r \<Rightarrow>
          c = CHR ''-'' \<and>
          (let body = (if r \<noteq> [] \<and> last r = CHR 0x0A then butlast r else r);
               int_part = takeWhile is_digit body;
               rest = dropWhile is_digit body
           in (int_part \<noteq> [] \<and> rest = []) \<or>
              (case rest of
                 [] \<Rightarrow> False
               | d # frac \<Rightarrow> d = CHR ''.'' \<and> frac \<noteq> [] \<and> list_all is_digit frac)))"

text \<open>
  \<^verbatim>\<open>_parse_optional\<close>: \<open>None\<close> for a positional argument, an option tuple for an
  option (known or not), and an error when an abbreviation matches several options.
\<close>

datatype parsed_optional = Positional | Optional option_tuple | Ambiguous

definition parse_optional :: "string \<Rightarrow> parsed_optional" where
  "parse_optional arg_string =
     (if arg_string = [] then Positional
      else if hd arg_string \<noteq> CHR ''-'' then Positional
      else case map_of option_string_actions arg_string of
        Some a \<Rightarrow> Optional (OptionTuple (Some a) arg_string None None)
      | None \<Rightarrow>
          if length arg_string = 1 then Positional
          else case partition_eq arg_string of
            (option_string, explicit_arg) \<Rightarrow>
              (case (explicit_arg, map_of option_string_actions option_string) of
                 (Some e, Some a) \<Rightarrow> Optional (OptionTuple (Some a) option_string (Some ''='') (Some e))
               | _ \<Rightarrow>
                   (case get_option_tuples arg_string of
                      [t] \<Rightarrow> Optional t
                    | _ # _ # _ \<Rightarrow> Ambiguous
                    | [] \<Rightarrow>
                        if negative_number arg_string then Positional
                        else if CHR '' '' \<in> set arg_string then Positional
                        else Optional (OptionTuple None arg_string None None))))"

text \<open>
  The pattern of the command line: \<open>Arg\<close> (\<^verbatim>\<open>A\<close>) for an argument, \<open>DoubleDash\<close> (\<^verbatim>\<open>-\<close>)
  for \<^verbatim>\<open>--\<close>, after which everything is an argument, and \<open>Opt\<close> (\<^verbatim>\<open>O\<close>) with its option
  tuple for an option. \<open>None\<close> when
  an option is ambiguous (the parser prints the usage and exits with status 2).
\<close>

datatype pattern = Arg | DoubleDash | Opt option_tuple

fun arg_strings_pattern :: "string list \<Rightarrow> (string \<times> pattern) list option" where
  "arg_strings_pattern [] = Some []"
| "arg_strings_pattern (arg_string # rest) =
     (if arg_string = ''--'' then Some ((arg_string, DoubleDash) # map (\<lambda>s. (s, Arg)) rest)
      else case parse_optional arg_string of
        Ambiguous \<Rightarrow> None
      | Positional \<Rightarrow> map_option (Cons (arg_string, Arg)) (arg_strings_pattern rest)
      | Optional t \<Rightarrow> map_option (Cons (arg_string, Opt t)) (arg_strings_pattern rest))"

text \<open>
  The help option written as \<^verbatim>\<open>-h\<close> with more characters attached: the characters are
  read as further one-letter options. \<open>True\<close> when the help action is taken, \<open>False\<close> when
  the parser reports an ignored explicit argument. The first argument tells whether a
  separator precedes the characters.
\<close>

fun help_chain :: "bool \<Rightarrow> string \<Rightarrow> bool" where
  "help_chain sep [] = False"
| "help_chain sep (c # cs) =
     (if sep \<or> c = CHR ''-'' then False
      else if c = CHR ''h'' then
        (case cs of
           [] \<Rightarrow> True
         | d # ds \<Rightarrow> if d = CHR ''='' then help_chain True ds else help_chain False (d # ds))
      else True)"

text \<open>The \<^verbatim>\<open>store\<close> action: \<^verbatim>\<open>setattr(namespace, dest, value)\<close>.\<close>

fun store :: "action \<Rightarrow> string \<Rightarrow> args \<Rightarrow> args" where
  "store StoreBaseUrl v ns = ns\<lparr>base_url := Some v\<rparr>"
| "store StoreApiKey v ns = ns\<lparr>api_key := Some v\<rparr>"
| "store StoreEncoding v ns = ns\<lparr>encoding := v\<rparr>"
| "store Help v ns = ns"

text \<open>
  What \<^verbatim>\<open>parse_args\<close> does: it returns the namespace, or prints the usage with an error
  to the standard error stream and exits with status 2, or prints the help to the standard
  output and exits with status 0.
\<close>

datatype parse_result = Parsed args | UsageError | HelpShown

text \<open>
  The loop of \<^verbatim>\<open>_parse_known_args\<close> for a parser without positional arguments. Every
  string that is not an option and not the value of one goes to \<^verbatim>\<open>extras\<close>, and so does
  an unknown option; \<^verbatim>\<open>parse_args\<close> rejects a command line with extras. A store option
  takes its explicit argument or else the next string, which must be an argument.
\<close>

fun consume :: "(string \<times> pattern) list \<Rightarrow> args \<Rightarrow> string list \<Rightarrow> parse_result" where
  "consume [] ns extras = (if extras = [] then Parsed ns else UsageError)"
| "consume ((s, Arg) # rest) ns extras = consume rest ns (extras @ [s])"
| "consume ((s, DoubleDash) # rest) ns extras = consume rest ns (extras @ [s])"
| "consume ((s, Opt (OptionTuple None option_string sep explicit_arg)) # rest) ns extras =
     consume rest ns (extras @ [s])"
| "consume ((s, Opt (OptionTuple (Some Help) option_string sep None)) # rest) ns extras = HelpShown"
| "consume ((s, Opt (OptionTuple (Some Help) option_string sep (Some e))) # rest) ns extras =
     (if option_string = ''-h'' \<and> help_chain (sep \<noteq> None \<and> sep \<noteq> Some []) e then HelpShown
      else UsageError)"
| "consume ((s, Opt (OptionTuple (Some a) option_string sep (Some e))) # rest) ns extras =
     consume rest (store a e ns) extras"
| "consume ((s, Opt (OptionTuple (Some a) option_string sep None)) # rest) ns extras =
     (case rest of
        (v, Arg) # rest' \<Rightarrow> consume rest' (store a v ns) extras
      | _ \<Rightarrow> UsageError)"

definition default_args :: args where
  "default_args = \<lparr>base_url = None, api_key = None, encoding = ''utf-8''\<rparr>"

definition parse_args :: "string list \<Rightarrow> parse_result" where
  "parse_args argv =
     (case arg_strings_pattern argv of
        None \<Rightarrow> UsageError
      | Some pat \<Rightarrow> consume pat default_args [])"

section \<open>\<^verbatim>\<open>_import_client\<close>\<close>

text \<open>
  \<^verbatim>\<open>
  try:
      import galactic_console_client
  except ImportError as exc:
      raise SystemExit("The 'galactic_console_client' package is required. "
                       "Install it before running this script.") from exc
  return galactic_console_client
  \<close>
\<close>

definition is_import_error :: "py_exc \<Rightarrow> bool" where
  "is_import_error e = (e = Raised ImportError \<or> e = Raised ModuleNotFoundError)"

definition missing_dependency :: py_exc where
  "missing_dependency = SystemExit (ExitMsg
     ''The 'galactic_console_client' package is required. Install it before running this script.'')"

definition import_client :: "world \<Rightarrow> py_exc + pyval" where
  "import_client w =
     (case import_module w of
        Inl e \<Rightarrow> if is_import_error e then Inl missing_dependency else Inl e
      | Inr client_module \<Rightarrow> Inr client_module)"

section \<open>\<^verbatim>\<open>main\<close> and the script\<close>

text \<open>
  \<^verbatim>\<open>
  args = parse_args(argv)
  client_module = _import_client()
  client = _create_client(client_module, args.base_url, args.api_key)
  system_payload = _call_get_system(client)
  memory_stream = _extract_memory_stream(system_payload)
  decoded = _decode_memory_stream(memory_stream, args.encoding)
  print(decoded)
  return 0
  \<close>
  \<open>main\<close> returns its result, or the exception that ends it, together with what it did,
  in order: the steps it started and what it wrote. \<^verbatim>\<open>print\<close> writes its argument and
  a newline to the standard output.
\<close>

datatype step =
    ParseArguments | ResolveClient | InstantiateClient | InvokeGetSystem
  | ExtractField | DecodeText | PrintResult

datatype stdout_item = Line pystr | HelpText

datatype stderr_item = UsageText | Message string | Traceback exc_class

datatype event = Step step | Out stdout_item | Err stderr_item

definition after :: "step \<Rightarrow> py_exc + 'a \<Rightarrow> ('a \<Rightarrow> (py_exc + 'b) \<times> event list)
    \<Rightarrow> (py_exc + 'b) \<times> event list" where
  "after s r k =
     (case r of
        Inl e \<Rightarrow> (Inl e, [Step s])
      | Inr x \<Rightarrow> (case k x of (r', evs) \<Rightarrow> (r', Step s # evs)))"

definition pipeline :: "world \<Rightarrow> args \<Rightarrow> (py_exc + int) \<times> event list" where
  "pipeline w a =
     after ResolveClient (import_client w) (\<lambda>client_module.
     after InstantiateClient (create_client w client_module (base_url a) (api_key a)) (\<lambda>client.
     after InvokeGetSystem (call_get_system w client) (\<lambda>system_payload.
     after ExtractField (extract_memory_stream system_payload) (\<lambda>memory_stream.
     after DecodeText (decode_memory_stream w memory_stream (encoding a)) (\<lambda>decoded.
       (Inr 0, [Step PrintResult, Out (Line decoded)]))))))"

definition main :: "world \<Rightarrow> (py_exc + int) \<times> event list" where
  "main w =
     (case parse_args (sys_argv w) of
        UsageError \<Rightarrow> (Inl (SystemExit (ExitCode 2)), [Step ParseArguments, Err UsageText])
      | HelpShown \<Rightarrow> (Inl (SystemExit (ExitCode 0)), [Step ParseArguments, Out HelpText])
      | Parsed a \<Rightarrow> (case pipeline w a of (r, evs) \<Rightarrow> (r, Step ParseArguments # evs)))"


fun stdout_of :: "event list \<Rightarrow> stdout_item list" where
  "stdout_of [] = []"
| "stdout_of (Out x # evs) = x # stdout_of evs"
| "stdout_of (_ # evs) = stdout_of evs"

fun stderr_of :: "event list \<Rightarrow> stderr_item list" where
  "stderr_of [] = []"
| "stderr_of (Err x # evs) = x # stderr_of evs"
| "stderr_of (_ # evs) = stderr_of evs"

text \<open>
  \<^verbatim>\<open>
  if __name__ == "__main__":
      raise SystemExit(main())
  \<close>
  How the interpreter ends a process on an exception nobody catches: \<^verbatim>\<open>SystemExit\<close> with
  an integer exits with that status (of which the operating system keeps the low eight
  bits), with \<^verbatim>\<open>None\<close> with status 0, and with any other argument it writes the argument
  to the standard error stream and exits with status 1; any other exception writes a
  traceback that names the exception and exits with status 1.
\<close>

record outcome =
  exit_status :: int
  stdout :: "stdout_item list"
  stderr :: "stderr_item list"

fun status_of :: "py_exc \<Rightarrow> int" where
  "status_of (SystemExit ExitNone) = 0"
| "status_of (SystemExit (ExitCode n)) = n mod 256"
| "status_of (SystemExit (ExitMsg m)) = 1"
| "status_of (Raised c) = 1"

fun report_of :: "py_exc \<Rightarrow> stderr_item list" where
  "report_of (SystemExit (ExitMsg m)) = [Message m]"
| "report_of (SystemExit _) = []"
| "report_of (Raised c) = [Traceback c]"

definition script :: "world \<Rightarrow> outcome" where
  "script w =
     (case main w of
        (r, evs) \<Rightarrow>
          (let exc = (case r of Inr code \<Rightarrow> SystemExit (ExitCode code) | Inl e \<Rightarrow> e)
           in \<lparr>exit_status = status_of exc,
               stdout = stdout_of evs,
               stderr = stderr_of evs @ report_of exc\<rparr>))"

section \<open>The properties, as predicates\<close>

text \<open>
  A client exposes a method: a callable named \<^verbatim>\<open>getSystem\<close> or \<^verbatim>\<open>get_system\<close>, on the
  client itself or on an attribute \<^verbatim>\<open>system\<close>, \<^verbatim>\<open>systems\<close> or \<^verbatim>\<open>console\<close> that is not
  \<^verbatim>\<open>None\<close>.
\<close>

definition exposes_method :: "pyval \<Rightarrow> pyval \<Rightarrow> bool" where
  "exposes_method client method =
     (callable method \<and>
      (\<exists>obj name.
         (obj = client \<or>
          (obj \<noteq> PNone \<and>
           (\<exists>a \<in> {''system'', ''systems'', ''console''}. py_getattr client a = Some obj))) \<and>
         name \<in> {''getSystem'', ''get_system''} \<and>
         py_getattr obj name = Some method))"

text \<open>
  A payload exposes a field with a value: as an attribute \<^verbatim>\<open>memory_stream\<close>,
  \<^verbatim>\<open>memoryStream\<close> or \<^verbatim>\<open>memory\<close>, or, when it is a \<^verbatim>\<open>dict\<close>, under one of these keys
  or \<^verbatim>\<open>memory_streams\<close>.
\<close>

definition exposes_field :: "pyval \<Rightarrow> pyval \<Rightarrow> bool" where
  "exposes_field payload v =
     ((\<exists>n \<in> {''memory_stream'', ''memoryStream'', ''memory''}. py_getattr payload n = Some v) \<or>
      (\<exists>kvs. dict_items payload = Some kvs \<and>
         (\<exists>k \<in> {''memory_stream'', ''memoryStream'', ''memory'', ''memory_streams''}.
            dict_get kvs k = Some v)))"


text \<open>
  An argument selects the encoding option: it is \<^verbatim>\<open>--encoding\<close> or a prefix of it from
  \<^verbatim>\<open>--e\<close> on, alone or with \<^verbatim>\<open>=value\<close> attached.
\<close>

definition selects_encoding :: "string \<Rightarrow> bool" where
  "selects_encoding s =
     (case partition_eq s of (p, e) \<Rightarrow> 3 \<le> length p \<and> startswith ''--encoding'' p)"


section \<open>A concrete run\<close>

text \<open>
  A package with a \<^verbatim>\<open>GalacticConsoleClient\<close> class whose instances have a \<^verbatim>\<open>system\<close>
  attribute with a \<^verbatim>\<open>get_system\<close> method, which returns a \<^verbatim>\<open>dict\<close> with the Base64 text
  \<^verbatim>\<open>Zm9v\<close> (the bytes of \<^verbatim>\<open>foo\<close>) under \<^verbatim>\<open>memory\<close>.
\<close>

definition demo_method :: pyval where
  "demo_method = PObj [] (Some 7) None"

definition demo_client :: pyval where
  "demo_client = PObj [(''system'', PObj [(''get_system'', demo_method)] None None)] None None"

definition demo_payload :: pyval where
  "demo_payload = PDict [(PStr (str_of ''memory''), PStr (str_of ''Zm9v''))]"

definition demo_module :: pyval where
  "demo_module = PObj [(''GalacticConsoleClient'', PObj [] (Some 1) None)] None None"

definition demo_call :: "nat \<Rightarrow> pyval list \<Rightarrow> (string \<times> pyval) list \<Rightarrow> py_exc + pyval" where
  "demo_call f args kwargs =
     (if f = 1 then Inr demo_client
      else if f = 7 then Inr demo_payload
      else Inl (Raised TypeError))"

definition demo_world :: world where
  "demo_world = \<lparr>sys_argv = [], import_module = Inr demo_module, call = demo_call,
                  codecs = three_codecs\<rparr>"

text \<open>
  A payload that is an instance of a \<^verbatim>\<open>dict\<close> subclass with two of the attributes and
  one of the keys, a \<^verbatim>\<open>dict\<close> with two of the keys, a package with both client patterns,
  and a package with neither.
\<close>

definition both_payload :: pyval where
  "both_payload =
     PObj [(''memory'', PInt 1), (''memoryStream'', PInt 2)] None
       (Some [(PStr (str_of ''memory_stream''), PInt 3)])"

definition keys_payload :: pyval where
  "keys_payload =
     PDict [(PStr (str_of ''memory_streams''), PInt 4), (PStr (str_of ''memory''), PInt 5)]"

definition both_module :: pyval where
  "both_module =
     PObj [(''Configuration'', PObj [] (Some 2) None), (''ApiClient'', PObj [] (Some 3) None),
           (''GalacticConsoleClient'', PObj [] (Some 1) None)] None None"

definition bare_module :: pyval where
  "bare_module = PObj [(''Configuration'', PObj [] (Some 2) None), (''get_system'', demo_method)] None None"


definition no_module_world :: world where
  "no_module_world = demo_world\<lparr>import_module := Inl (Raised ModuleNotFoundError)\<rparr>"

definition no_method_world :: world where
  "no_method_world = demo_world\<lparr>import_module := Inr (PObj [(''version'', PInt 1)] None None)\<rparr>"

definition no_field_world :: world where
  "no_field_world = demo_world\<lparr>call := (\<lambda>f args kwargs. if f = 1 then Inr demo_client else Inr (PDict []))\<rparr>"


section \<open>Looking up the call and the field\<close>

lemma set_nested_names: "set nested_names = {''system'', ''systems'', ''console''}"
  by (simp add: nested_names_def)

lemma set_method_names: "set method_names = {''getSystem'', ''get_system''}"
  by (simp add: method_names_def)

lemma set_attr_names: "set attr_names = {''memory_stream'', ''memoryStream'', ''memory''}"
  by (simp add: attr_names_def)

lemma set_key_names:
  "set key_names = {''memory_stream'', ''memoryStream'', ''memory'', ''memory_streams''}"
  by (simp add: key_names_def)

lemma getattr_default_callable:
  "callable (getattr_default obj n PNone) \<Longrightarrow> py_getattr obj n = Some (getattr_default obj n PNone)"
  by (auto simp: getattr_default_def split: option.splits)

lemma first_method_on_Some:
  "first_method_on obj names = Some m \<Longrightarrow>
     callable m \<and> (\<exists>n \<in> set names. py_getattr obj n = Some m)"
  by (induction names) (auto simp: Let_def getattr_default_callable split: if_splits)

lemma first_method_on_None:
  "first_method_on obj names = None \<Longrightarrow> n \<in> set names \<Longrightarrow> py_getattr obj n = Some m \<Longrightarrow> \<not> callable m"
  by (induction names) (auto simp: Let_def getattr_default_def split: if_splits)

lemma first_method_Some:
  "first_method objs = Some m \<Longrightarrow>
     callable m \<and> (\<exists>obj \<in> set objs. \<exists>n \<in> set method_names. py_getattr obj n = Some m)"
  by (induction objs) (auto dest!: first_method_on_Some split: option.splits)

lemma first_method_None:
  "first_method objs = None \<Longrightarrow> obj \<in> set objs \<Longrightarrow> n \<in> set method_names \<Longrightarrow>
     py_getattr obj n = Some m \<Longrightarrow> \<not> callable m"
  by (induction objs) (auto dest: first_method_on_None split: option.splits)

lemma set_nested_objects:
  "set (nested_objects client names) =
     {v. v \<noteq> PNone \<and> (\<exists>a \<in> set names. py_getattr client a = Some v)}"
  by (induction names) (auto simp: Let_def getattr_default_def split: option.splits)

lemma exposes_method_iff:
  "exposes_method client m \<longleftrightarrow>
     callable m \<and>
     (\<exists>obj \<in> set (candidate_objects client). \<exists>n \<in> set method_names. py_getattr obj n = Some m)"
  unfolding exposes_method_def candidate_objects_def list.set set_nested_objects
    set_nested_names set_method_names
  by blast

lemma call_get_system_exposed:
  assumes "exposes_method client m"
  shows "\<exists>m'. exposes_method client m' \<and> call_get_system w client = py_call w m' [] []"
proof (cases "first_method (candidate_objects client)")
  case None
  with assms show ?thesis
    unfolding exposes_method_iff by (blast dest: first_method_None)
next
  case (Some m')
  then have "exposes_method client m'"
    unfolding exposes_method_iff using first_method_Some by blast
  with Some show ?thesis by (auto simp: call_get_system_def)
qed

lemma call_get_system_not_exposed:
  assumes "\<forall>m. \<not> exposes_method client m"
  shows "call_get_system w client =
           Inl (SystemExit (ExitMsg ''Unable to locate a 'getSystem' call on the client.''))"
proof (cases "first_method (candidate_objects client)")
  case None
  then show ?thesis by (simp add: call_get_system_def)
next
  case (Some m')
  then have "exposes_method client m'"
    unfolding exposes_method_iff using first_method_Some by blast
  with assms show ?thesis by blast
qed

lemma first_attr_Some:
  "first_attr p names = Some v \<Longrightarrow> \<exists>n \<in> set names. py_getattr p n = Some v"
  by (induction names) (auto simp: hasattr_def split: if_splits)

lemma first_attr_None:
  "first_attr p names = None \<Longrightarrow> \<forall>n \<in> set names. py_getattr p n = None"
  by (induction names) (auto simp: hasattr_def split: if_splits)

lemma first_key_Some:
  "first_key kvs names = Some v \<Longrightarrow> \<exists>k \<in> set names. dict_get kvs k = Some v"
  by (induction names) (auto split: if_splits)

lemma first_key_None:
  "first_key kvs names = None \<Longrightarrow> \<forall>k \<in> set names. dict_get kvs k = None"
  by (induction names) (auto split: if_splits)

lemma exposes_field_iff:
  "exposes_field p v \<longleftrightarrow>
     (\<exists>n \<in> set attr_names. py_getattr p n = Some v) \<or>
     (\<exists>kvs. dict_items p = Some kvs \<and> (\<exists>k \<in> set key_names. dict_get kvs k = Some v))"
  unfolding exposes_field_def set_attr_names set_key_names by (rule refl)

lemma extract_exposed:
  assumes "exposes_field p v"
  shows "\<exists>v'. exposes_field p v' \<and> extract_memory_stream p = Inr v'"
proof -
  from assms have nn: "p \<noteq> PNone" by (auto simp: exposes_field_def)
  show ?thesis
  proof (cases "first_attr p attr_names")
    case (Some a)
    then have "exposes_field p a"
      unfolding exposes_field_iff by (blast dest: first_attr_Some)
    with Some nn show ?thesis by (auto simp: extract_memory_stream_def)
  next
    case None
    then have na: "\<forall>n \<in> set attr_names. py_getattr p n = None" by (rule first_attr_None)
    with assms obtain kvs k where kvs: "dict_items p = Some kvs"
      and k: "k \<in> set key_names" "dict_get kvs k = Some v"
      unfolding exposes_field_iff by auto
    show ?thesis
    proof (cases "first_key kvs key_names")
      case no_key: None
      with k show ?thesis by (auto dest!: first_key_None)
    next
      case (Some b)
      then have "exposes_field p b" using kvs
        unfolding exposes_field_iff by (blast dest: first_key_Some)
      with Some None kvs nn show ?thesis by (auto simp: extract_memory_stream_def)
    qed
  qed
qed

lemma extract_not_exposed:
  assumes "\<forall>v. \<not> exposes_field p v"
  shows "extract_memory_stream p = Inl (SystemExit (ExitMsg ''The getSystem call returned no data.''))
       \<or> extract_memory_stream p = Inl no_memory_stream"
proof (cases "p = PNone")
  case True
  then show ?thesis by (simp add: extract_memory_stream_def)
next
  case False
  have a: "first_attr p attr_names = None"
  proof (cases "first_attr p attr_names")
    case (Some x)
    then have "exposes_field p x" unfolding exposes_field_iff by (blast dest: first_attr_Some)
    with assms show ?thesis by blast
  qed simp
  have k: "first_key kvs key_names = None" if "dict_items p = Some kvs" for kvs
  proof (cases "first_key kvs key_names")
    case (Some x)
    with that have "exposes_field p x" unfolding exposes_field_iff by (blast dest: first_key_Some)
    with assms show ?thesis by blast
  qed simp
  from False a k show ?thesis
    by (auto simp: extract_memory_stream_def split: option.splits)
qed

lemma demo_client_exposes: "exposes_method demo_client demo_method"
  unfolding exposes_method_def
proof (intro conjI exI)
  show "callable demo_method" by (simp add: demo_method_def)
  show "PObj [(''get_system'', demo_method)] None None = demo_client \<or>
        PObj [(''get_system'', demo_method)] None None \<noteq> PNone \<and>
        (\<exists>a \<in> {''system'', ''systems'', ''console''}.
           py_getattr demo_client a = Some (PObj [(''get_system'', demo_method)] None None))"
    by (simp add: demo_client_def)
  show "''get_system'' \<in> {''getSystem'', ''get_system''}" by simp
  show "py_getattr (PObj [(''get_system'', demo_method)] None None) ''get_system'' = Some demo_method"
    by simp
qed

lemma demo_payload_exposes: "exposes_field demo_payload (PStr (str_of ''Zm9v''))"
  by (simp add: exposes_field_def demo_payload_def dict_get_def)

lemma demo_client_only: "exposes_method demo_client m' \<Longrightarrow> m' = demo_method"
  by (auto simp: exposes_method_def demo_client_def)

lemma demo_payload_only: "exposes_field demo_payload v' \<Longrightarrow> v' = PStr (str_of ''Zm9v'')"
  by (auto simp: exposes_field_def demo_payload_def dict_get_def str_of_def split: if_splits)

text \<open>
  C5. When a client exposes a callable \<^verbatim>\<open>getSystem\<close> or \<^verbatim>\<open>get_system\<close>, on itself or on
  a nested \<^verbatim>\<open>system\<close>, \<^verbatim>\<open>systems\<close> or \<^verbatim>\<open>console\<close> attribute that is not \<^verbatim>\<open>None\<close>,
  \<^verbatim>\<open>_call_get_system\<close> returns what calling an exposed method returns, and when the
  client exposes one method only, what calling that method returns. When a payload
  exposes one of the supported attributes or \<^verbatim>\<open>dict\<close> keys, \<^verbatim>\<open>_extract_memory_stream\<close>
  returns the value of an exposed field, and when one value only is exposed, that value.
\<close>

theorem retrieval_of_exposed_variants:
  "(exposes_method client m \<longrightarrow>
      (\<exists>m'. exposes_method client m' \<and> call_get_system w client = py_call w m' [] [])) \<and>
   (exposes_method client m \<and> (\<forall>m'. exposes_method client m' \<longrightarrow> m' = m) \<longrightarrow>
      call_get_system w client = py_call w m [] []) \<and>
   (exposes_field payload v \<longrightarrow>
      (\<exists>v'. exposes_field payload v' \<and> extract_memory_stream payload = Inr v')) \<and>
   (exposes_field payload v \<and> (\<forall>v'. exposes_field payload v' \<longrightarrow> v' = v) \<longrightarrow>
      extract_memory_stream payload = Inr v)"
  using call_get_system_exposed [of client m w] extract_exposed [of payload v] by metis

theorem retrieval_of_exposed_variants_witness:
  "call_get_system demo_world demo_client = Inr demo_payload \<and>
   extract_memory_stream demo_payload = Inr (PStr (str_of ''Zm9v''))"
proof -
  have "py_call demo_world demo_method [] [] = Inr demo_payload"
    by (simp add: demo_method_def demo_world_def demo_call_def)
  with retrieval_of_exposed_variants
    [of demo_client demo_method demo_world demo_payload "PStr (str_of ''Zm9v'')"]
    demo_client_exposes demo_payload_exposes demo_client_only demo_payload_only
  show ?thesis by metis
qed

section \<open>Precedence of the lookups\<close>

lemma first_attr_at:
  "i < length names \<Longrightarrow> py_getattr p (names ! i) = Some v \<Longrightarrow>
   (\<forall>j < i. py_getattr p (names ! j) = None) \<Longrightarrow> first_attr p names = Some v"
proof (induction names arbitrary: i)
  case Nil
  then show ?case by simp
next
  case (Cons n names)
  show ?case
  proof (cases i)
    case 0
    with Cons.prems show ?thesis by (simp add: hasattr_def)
  next
    case (Suc k)
    with Cons.prems have "py_getattr p n = None" by auto
    moreover from Suc Cons.prems have "first_attr p names = Some v"
      by (intro Cons.IH [of k]) auto
    ultimately show ?thesis by (simp add: hasattr_def)
  qed
qed

lemma first_key_at:
  "i < length names \<Longrightarrow> dict_get kvs (names ! i) = Some v \<Longrightarrow>
   (\<forall>j < i. dict_get kvs (names ! j) = None) \<Longrightarrow> first_key kvs names = Some v"
proof (induction names arbitrary: i)
  case Nil
  then show ?case by simp
next
  case (Cons n names)
  show ?case
  proof (cases i)
    case 0
    with Cons.prems show ?thesis by simp
  next
    case (Suc k)
    with Cons.prems have "dict_get kvs n = None" by auto
    moreover from Suc Cons.prems have "first_key kvs names = Some v"
      by (intro Cons.IH [of k]) auto
    ultimately show ?thesis by simp
  qed
qed

lemma first_attr_all_None:
  "(\<forall>n \<in> set names. py_getattr p n = None) \<Longrightarrow> first_attr p names = None"
  by (induction names) (auto simp: hasattr_def)

lemma extract_attr_at:
  assumes "i < 3"
    and "py_getattr p ([''memory_stream'', ''memoryStream'', ''memory''] ! i) = Some v"
    and "\<forall>j < i. py_getattr p ([''memory_stream'', ''memoryStream'', ''memory''] ! j) = None"
  shows "extract_memory_stream p = Inr v"
proof -
  from assms have "first_attr p attr_names = Some v"
    unfolding attr_names_def by (intro first_attr_at) auto
  moreover from assms(2) have "p \<noteq> PNone" by auto
  ultimately show ?thesis by (simp add: extract_memory_stream_def)
qed

lemma extract_key_at:
  assumes "\<forall>n \<in> {''memory_stream'', ''memoryStream'', ''memory''}. py_getattr p n = None"
    and "dict_items p = Some kvs"
    and "i < 4"
    and "dict_get kvs ([''memory_stream'', ''memoryStream'', ''memory'', ''memory_streams''] ! i) = Some v"
    and "\<forall>j < i. dict_get kvs ([''memory_stream'', ''memoryStream'', ''memory'', ''memory_streams''] ! j) = None"
  shows "extract_memory_stream p = Inr v"
proof -
  from assms(1) have "first_attr p attr_names = None"
    by (intro first_attr_all_None) (simp add: attr_names_def)
  moreover from assms(3-5) have "first_key kvs key_names = Some v"
    unfolding key_names_def by (intro first_key_at) auto
  moreover from assms(2) have "p \<noteq> PNone" by auto
  ultimately show ?thesis using assms(2) by (simp add: extract_memory_stream_def)
qed

lemma create_client_high_level:
  "py_getattr m ''GalacticConsoleClient'' = Some cls \<Longrightarrow>
   create_client w m b k = py_call w cls [] (client_kwargs b k)"
  by (simp add: create_client_def)

lemma create_client_module:
  "py_getattr m ''GalacticConsoleClient'' = None \<Longrightarrow>
   py_getattr m ''Configuration'' = None \<or> py_getattr m ''ApiClient'' = None \<Longrightarrow>
   create_client w m b k = Inr m"
  by (auto simp: create_client_def split: option.splits)

text \<open>
  C10. \<^verbatim>\<open>_extract_memory_stream\<close> returns the first attribute present in the order
  \<^verbatim>\<open>memory_stream\<close>, \<^verbatim>\<open>memoryStream\<close>, \<^verbatim>\<open>memory\<close>, whatever the \<^verbatim>\<open>dict\<close> keys are;
  with none of the attributes present it returns the first key present in the order
  \<^verbatim>\<open>memory_stream\<close>, \<^verbatim>\<open>memoryStream\<close>, \<^verbatim>\<open>memory\<close>, \<^verbatim>\<open>memory_streams\<close>.
  \<^verbatim>\<open>_create_client\<close> calls \<^verbatim>\<open>GalacticConsoleClient\<close> whenever the package has it, also
  when \<^verbatim>\<open>Configuration\<close> and \<^verbatim>\<open>ApiClient\<close> are there, and returns the package itself
  when it has neither \<^verbatim>\<open>GalacticConsoleClient\<close> nor both of \<^verbatim>\<open>Configuration\<close> and
  \<^verbatim>\<open>ApiClient\<close>.
\<close>

theorem lookup_precedence:
  "(i < 3 \<and>
    py_getattr p ([''memory_stream'', ''memoryStream'', ''memory''] ! i) = Some v \<and>
    (\<forall>j < i. py_getattr p ([''memory_stream'', ''memoryStream'', ''memory''] ! j) = None)
      \<longrightarrow> extract_memory_stream p = Inr v) \<and>
   ((\<forall>n \<in> {''memory_stream'', ''memoryStream'', ''memory''}. py_getattr p n = None) \<and>
    dict_items p = Some kvs \<and> i < 4 \<and>
    dict_get kvs ([''memory_stream'', ''memoryStream'', ''memory'', ''memory_streams''] ! i) = Some v \<and>
    (\<forall>j < i. dict_get kvs ([''memory_stream'', ''memoryStream'', ''memory'', ''memory_streams''] ! j) = None)
      \<longrightarrow> extract_memory_stream p = Inr v) \<and>
   (py_getattr m ''GalacticConsoleClient'' = Some cls
      \<longrightarrow> create_client w m b k = py_call w cls [] (client_kwargs b k)) \<and>
   (py_getattr m ''GalacticConsoleClient'' = None \<and>
    (py_getattr m ''Configuration'' = None \<or> py_getattr m ''ApiClient'' = None)
      \<longrightarrow> create_client w m b k = Inr m)"
  using extract_attr_at [of i p v] extract_key_at [of p kvs i v]
    create_client_high_level [of m cls w b k] create_client_module [of m w b k]
  by blast

theorem lookup_precedence_witness:
  "extract_memory_stream both_payload = Inr (PInt 2) \<and>
   extract_memory_stream keys_payload = Inr (PInt 5) \<and>
   create_client demo_world both_module (Some ''http://h'') None = Inr demo_client \<and>
   create_client demo_world bare_module None None = Inr bare_module"
proof -
  have 1: "extract_memory_stream both_payload = Inr (PInt 2)"
    using lookup_precedence [of 1 both_payload "PInt 2"]
    by (simp add: both_payload_def)
  have 2: "extract_memory_stream keys_payload = Inr (PInt 5)"
    using lookup_precedence [of 2 keys_payload "PInt 5"
        "[(PStr (str_of ''memory_streams''), PInt 4), (PStr (str_of ''memory''), PInt 5)]"]
    by (simp add: keys_payload_def dict_get_def str_of_def less_Suc_eq numeral_2_eq_2)
  have 3: "create_client demo_world both_module (Some ''http://h'') None = Inr demo_client"
    using lookup_precedence [of _ _ _ _ both_module "PObj [] (Some 1) None" demo_world "Some ''http://h''" None]
    by (simp add: both_module_def demo_world_def demo_call_def)
  have 4: "create_client demo_world bare_module None None = Inr bare_module"
    using lookup_precedence [of _ _ _ _ bare_module _ demo_world None None]
    by (simp add: bare_module_def)
  from 1 2 3 4 show ?thesis by blast
qed

section \<open>Decoding\<close>






lemma demo_decode_utf8: "py_decode demo_world ''utf-8'' raw = lift_exc (utf8_decode raw)"
  by (simp add: py_decode_def demo_world_def three_codecs_def utf8_codec_def)



lemma b64_ff: "b64decode_validate (str_of ''/w=='') = Inr [0xFF]"
  by (simp add: b64decode_validate_def a2b_base64_strict_def str_of_def table_a2b_base64_def)








text \<open>
  C3. When decoding the raw bytes with the given encoding raises \<^verbatim>\<open>UnicodeDecodeError\<close>,
  \<^verbatim>\<open>_decode_memory_stream\<close> returns the same bytes decoded as UTF-8 with replacement
  characters; that decoding is total, so the function returns a string.
\<close>

theorem decode_error_fallback:
  "raw_bytes w ms enc = Inr raw \<Longrightarrow> py_decode w enc raw = Inl (Raised UnicodeDecodeError) \<Longrightarrow>
   decode_memory_stream w ms enc = Inr (utf8_decode_replace raw)"
  by (simp add: decode_memory_stream_def bind_exc_def decode_raw_def)

theorem decode_error_fallback_witness:
  "raw_bytes demo_world (PStr (str_of ''/w=='')) ''utf-8'' = Inr [0xFF] \<and>
   py_decode demo_world ''utf-8'' [0xFF] = Inl (Raised UnicodeDecodeError) \<and>
   decode_memory_stream demo_world (PStr (str_of ''/w=='')) ''utf-8'' = Inr [0xFFFD]"
proof -
  have r: "raw_bytes demo_world (PStr (str_of ''/w=='')) ''utf-8'' = Inr [0xFF]"
    using b64_ff by simp
  have d: "py_decode demo_world ''utf-8'' [0xFF] = Inl (Raised UnicodeDecodeError)"
    by (simp add: demo_decode_utf8 lift_exc_def)
  from decode_error_fallback [OF r d] r d show ?thesis by simp
qed










section \<open>The process\<close>








lemma parse_nothing: "parse_args [] = Parsed default_args"
  by (simp add: parse_args_def)


lemma demo_call_get_system: "call_get_system w demo_client = py_call w demo_method [] []"
  by (simp add: call_get_system_def candidate_objects_def nested_names_def method_names_def
      demo_client_def demo_method_def getattr_default_def)




lemma script_import_failure:
  assumes "parse_args (sys_argv w) = Parsed a"
    and "import_module w = Inl (Raised ImportError) \<or> import_module w = Inl (Raised ModuleNotFoundError)"
  shows "script w = \<lparr>exit_status = 1, stdout = [],
           stderr = [Message ''The 'galactic_console_client' package is required. Install it before running this script.'']\<rparr>"
  using assms
  by (auto simp: script_def main_def pipeline_def after_def import_client_def is_import_error_def
      missing_dependency_def)

lemma script_no_method:
  assumes "parse_args (sys_argv w) = Parsed a"
    and "import_client w = Inr m"
    and "create_client w m (base_url a) (api_key a) = Inr client"
    and "\<forall>meth. \<not> exposes_method client meth"
  shows "script w = \<lparr>exit_status = 1, stdout = [],
           stderr = [Message ''Unable to locate a 'getSystem' call on the client.'']\<rparr>"
  using assms(1-3) call_get_system_not_exposed [OF assms(4), of w]
  by (simp add: script_def main_def pipeline_def after_def)

lemma script_no_field:
  assumes "parse_args (sys_argv w) = Parsed a"
    and "import_client w = Inr m"
    and "create_client w m (base_url a) (api_key a) = Inr client"
    and "call_get_system w client = Inr payload"
    and "\<forall>v. \<not> exposes_field payload v"
  shows "script w = \<lparr>exit_status = 1, stdout = [],
           stderr = [Message ''The getSystem call returned no data.'']\<rparr> \<or>
         script w = \<lparr>exit_status = 1, stdout = [],
           stderr = [Message ''The system payload does not contain a memory stream.'']\<rparr>"
  using assms(1-4) extract_not_exposed [OF assms(5)]
  by (auto simp: script_def main_def pipeline_def after_def no_memory_stream_def)

lemma no_method_module: "\<not> exposes_method (PObj [(''version'', PInt 1)] None None) meth"
  by (auto simp: exposes_method_def)

lemma empty_dict_no_field: "\<not> exposes_field (PDict []) v"
  by (simp add: exposes_field_def dict_get_def)

text \<open>
  C4. A missing \<^verbatim>\<open>galactic_console_client\<close> package, a client on which no
  \<^verbatim>\<open>getSystem\<close>/\<^verbatim>\<open>get_system\<close> method can be found (on itself or on its \<^verbatim>\<open>system\<close>,
  \<^verbatim>\<open>systems\<close>, \<^verbatim>\<open>console\<close> attributes), and a payload with none of the memory-stream
  attributes or keys each end the process with exit status 1 and the script's message on
  the standard error stream.
\<close>

theorem failures_end_process:
  "(parse_args (sys_argv w) = Parsed a \<and>
    (import_module w = Inl (Raised ImportError) \<or> import_module w = Inl (Raised ModuleNotFoundError))
      \<longrightarrow> script w = \<lparr>exit_status = 1, stdout = [],
            stderr = [Message ''The 'galactic_console_client' package is required. Install it before running this script.'']\<rparr>) \<and>
   (parse_args (sys_argv w) = Parsed a \<and> import_client w = Inr m \<and>
    create_client w m (base_url a) (api_key a) = Inr client \<and>
    (\<forall>meth. \<not> exposes_method client meth)
      \<longrightarrow> script w = \<lparr>exit_status = 1, stdout = [],
            stderr = [Message ''Unable to locate a 'getSystem' call on the client.'']\<rparr>) \<and>
   (parse_args (sys_argv w) = Parsed a \<and> import_client w = Inr m \<and>
    create_client w m (base_url a) (api_key a) = Inr client \<and>
    call_get_system w client = Inr payload \<and> (\<forall>v. \<not> exposes_field payload v)
      \<longrightarrow> script w = \<lparr>exit_status = 1, stdout = [],
              stderr = [Message ''The getSystem call returned no data.'']\<rparr> \<or>
          script w = \<lparr>exit_status = 1, stdout = [],
              stderr = [Message ''The system payload does not contain a memory stream.'']\<rparr>)"
  using script_import_failure [of w a] script_no_method [of w a m client]
    script_no_field [of w a m client payload]
  by blast

theorem failures_end_process_witness:
  "script no_module_world = \<lparr>exit_status = 1, stdout = [],
     stderr = [Message ''The 'galactic_console_client' package is required. Install it before running this script.'']\<rparr> \<and>
   script no_method_world = \<lparr>exit_status = 1, stdout = [],
     stderr = [Message ''Unable to locate a 'getSystem' call on the client.'']\<rparr> \<and>
   script no_field_world = \<lparr>exit_status = 1, stdout = [],
     stderr = [Message ''The system payload does not contain a memory stream.'']\<rparr>"
proof -
  have 1: "script no_module_world = \<lparr>exit_status = 1, stdout = [],
     stderr = [Message ''The 'galactic_console_client' package is required. Install it before running this script.'']\<rparr>"
    using failures_end_process [of no_module_world default_args]
    by (simp add: no_module_world_def demo_world_def parse_nothing)
  have 2: "script no_method_world = \<lparr>exit_status = 1, stdout = [],
     stderr = [Message ''Unable to locate a 'getSystem' call on the client.'']\<rparr>"
    using failures_end_process [of no_method_world default_args "PObj [(''version'', PInt 1)] None None"
        "PObj [(''version'', PInt 1)] None None"] no_method_module
    by (simp add: no_method_world_def demo_world_def parse_nothing import_client_def
        create_client_def default_args_def)
  have f: "script no_field_world = \<lparr>exit_status = 1, stdout = [],
              stderr = [Message ''The getSystem call returned no data.'']\<rparr> \<or>
          script no_field_world = \<lparr>exit_status = 1, stdout = [],
              stderr = [Message ''The system payload does not contain a memory stream.'']\<rparr>"
    using failures_end_process [of no_field_world default_args demo_module demo_client "PDict []"]
      empty_dict_no_field
    by (simp add: no_field_world_def demo_world_def parse_nothing import_client_def
        create_client_def default_args_def demo_module_def client_kwargs_def
        demo_call_get_system demo_method_def)
  have "script no_field_world \<noteq> \<lparr>exit_status = 1, stdout = [],
              stderr = [Message ''The getSystem call returned no data.'']\<rparr>"
    by (simp add: script_def main_def pipeline_def after_def no_field_world_def demo_world_def
        parse_nothing import_client_def create_client_def default_args_def demo_module_def
        client_kwargs_def demo_call_get_system demo_method_def extract_memory_stream_def
        attr_names_def key_names_def hasattr_def dict_get_def no_memory_stream_def)
  with f have 3: "script no_field_world = \<lparr>exit_status = 1, stdout = [],
     stderr = [Message ''The system payload does not contain a memory stream.'']\<rparr>" by blast
  from 1 2 3 show ?thesis by blast
qed









section \<open>The command line\<close>

lemma map_of_actions_encoding:
  "map_of option_string_actions s = Some StoreEncoding \<Longrightarrow> s = ''--encoding''"
  by (simp add: option_string_actions_def split: if_splits)

lemma map_of_actions_mem:
  "map_of option_string_actions s = Some a \<Longrightarrow> (s, a) \<in> set option_string_actions"
  by (rule map_of_SomeD)

lemma selects_encoding_exact: "selects_encoding ''--encoding''"
  by (simp add: selects_encoding_def)

lemma selects_encoding_eq:
  "partition_eq s = (''--encoding'', e) \<Longrightarrow> selects_encoding s"
  by (simp add: selects_encoding_def)

lemma partition_eq_dashes:
  "partition_eq (CHR ''-'' # CHR ''-'' # rest) = (p, e) \<Longrightarrow> \<exists>p'. p = CHR ''-'' # CHR ''-'' # p'"
  by (auto split: prod.splits)

lemma long_tuples_encoding:
  assumes "get_option_tuples (CHR ''-'' # CHR ''-'' # rest) = [OptionTuple (Some StoreEncoding) os sep e]"
  shows "selects_encoding (CHR ''-'' # CHR ''-'' # rest)"
proof -
  obtain p ea where pe: "partition_eq (CHR ''-'' # CHR ''-'' # rest) = (p, ea)" by fastforce
  from partition_eq_dashes [OF pe] obtain p' where p: "p = CHR ''-'' # CHR ''-'' # p'" by blast
  from assms pe p have "p' \<noteq> []"
    by (auto simp: get_option_tuples_def option_string_actions_def simp del: partition_eq.simps)
  moreover from assms pe p have "startswith ''--encoding'' p"
    by (auto simp: get_option_tuples_def option_string_actions_def simp del: partition_eq.simps
        split: if_splits)
  ultimately show ?thesis using pe p
    by (cases p') (simp_all add: selects_encoding_def del: partition_eq.simps)
qed

lemma short_tuples_no_encoding:
  assumes "c1 \<noteq> CHR ''-''"
  shows "OptionTuple (Some StoreEncoding) os sep e \<notin> set (get_option_tuples (c0 # c1 # rest))"
  using assms by (auto simp: get_option_tuples_def option_string_actions_def split: if_splits)

lemma encoding_option_selected:
  assumes "parse_optional s = Optional (OptionTuple (Some StoreEncoding) os sep e)"
  shows "selects_encoding s"
proof (cases "map_of option_string_actions s")
  case (Some a)
  with assms have "a = StoreEncoding"
    by (auto simp: parse_optional_def split: if_splits)
  with Some show ?thesis using map_of_actions_encoding selects_encoding_exact by blast
next
  case None
  with assms have s: "s \<noteq> []" "hd s = CHR ''-''" "length s \<noteq> 1"
    by (auto simp: parse_optional_def split: if_splits)
  then obtain c1 rest where sr: "s = CHR ''-'' # c1 # rest"
    by (cases s; cases "tl s") auto
  obtain p ea where pe: "partition_eq s = (p, ea)" by fastforce
  show ?thesis
  proof (cases "\<exists>x a. ea = Some x \<and> map_of option_string_actions p = Some a")
    case True
    then obtain x a where x: "ea = Some x" "map_of option_string_actions p = Some a" by blast
    with assms None s pe have "a = StoreEncoding"
      by (simp add: parse_optional_def)
    with x(2) have "p = ''--encoding''" using map_of_actions_encoding by blast
    with pe show ?thesis using selects_encoding_eq by blast
  next
    case False
    with assms None s pe have t: "get_option_tuples s = [OptionTuple (Some StoreEncoding) os sep e]"
      by (auto simp: parse_optional_def split: option.splits list.splits if_splits)
    show ?thesis
    proof (cases "c1 = CHR ''-''")
      case True
      with t sr show ?thesis using long_tuples_encoding by blast
    next
      case False
      from short_tuples_no_encoding [OF False, of os sep e "CHR ''-''" rest] t sr
      show ?thesis by simp
    qed
  qed
qed

lemma consume_extras: "extras \<noteq> [] \<Longrightarrow> consume pat ns extras \<noteq> Parsed a"
  by (induction pat ns extras rule: consume.induct) (auto split: list.splits pattern.splits)

lemma consume_Parsed_cases:
  assumes "consume ((s, p) # rest) ns extras = Parsed a"
  obtains (explicit) act os sep e where
      "p = Opt (OptionTuple (Some act) os sep (Some e))" "act \<noteq> Help"
      "consume rest (store act e ns) extras = Parsed a"
  | (separate) act os sep v rest' where
      "p = Opt (OptionTuple (Some act) os sep None)" "act \<noteq> Help" "rest = (v, Arg) # rest'"
      "consume rest' (store act v ns) extras = Parsed a"
proof (cases p)
  case Arg
  with assms show ?thesis by (simp add: consume_extras)
next
  case DoubleDash
  with assms show ?thesis by (simp add: consume_extras)
next
  case (Opt t)
  obtain ao os sep eo where t: "t = OptionTuple ao os sep eo" by (cases t)
  show ?thesis
  proof (cases ao)
    case None
    with assms Opt t show ?thesis by (simp add: consume_extras)
  next
    case (Some act)
    show ?thesis
    proof (cases eo)
      case no_arg: None
      with assms Opt t Some have h: "act \<noteq> Help" by (cases act) auto
      with assms Opt t Some no_arg obtain v rest' where
        "rest = (v, Arg) # rest'" "consume rest' (store act v ns) extras = Parsed a"
        by (cases act) (auto split: list.splits pattern.splits)
      with separate [of act os sep v rest'] Opt t Some no_arg h show ?thesis by simp
    next
      case (Some e)
      with assms Opt t \<open>ao = Some act\<close> have h: "act \<noteq> Help" by (cases act) (auto split: if_splits)
      with assms Opt t \<open>ao = Some act\<close> Some have "consume rest (store act e ns) extras = Parsed a"
        by (cases act) auto
      with explicit [of act os sep e] Opt t \<open>ao = Some act\<close> Some h show ?thesis by simp
    qed
  qed
qed

lemma store_other: "act \<noteq> StoreEncoding \<Longrightarrow> encoding (store act v ns) = encoding ns"
  by (cases act) simp_all

lemma consume_encoding:
  "consume pat ns extras = Parsed a \<Longrightarrow>
   (\<forall>s os sep e. (s, Opt (OptionTuple (Some StoreEncoding) os sep e)) \<notin> set pat) \<Longrightarrow>
   encoding a = encoding ns"
proof (induction "length pat" arbitrary: pat ns rule: less_induct)
  case less
  show ?case
  proof (cases pat)
    case Nil
    with less.prems show ?thesis by (simp split: if_splits)
  next
    case (Cons sp rest)
    obtain s p where sp: "sp = (s, p)" by (cases sp)
    from less.prems(1) Cons sp have c: "consume ((s, p) # rest) ns extras = Parsed a" by simp
    from c show ?thesis
    proof (cases rule: consume_Parsed_cases)
      case (explicit act os sep e)
      with less.prems(2) Cons sp have "act \<noteq> StoreEncoding" by auto
      moreover from less.hyps [of rest "store act e ns"] explicit(3) less.prems(2) Cons
      have "encoding a = encoding (store act e ns)" by auto
      ultimately show ?thesis by (simp add: store_other)
    next
      case (separate act os sep v rest')
      with less.prems(2) Cons sp have "act \<noteq> StoreEncoding" by auto
      moreover from less.hyps [of rest' "store act v ns"] separate(3,4) less.prems(2) Cons
      have "encoding a = encoding (store act v ns)" by auto
      ultimately show ?thesis by (simp add: store_other)
    qed
  qed
qed

lemma consume_accepts:
  "consume pat ns extras = Parsed a \<Longrightarrow> (s, p) \<in> set pat \<Longrightarrow>
   p = Arg \<or> (\<exists>act os sep e. p = Opt (OptionTuple (Some act) os sep e) \<and> act \<noteq> Help)"
proof (induction "length pat" arbitrary: pat ns rule: less_induct)
  case less
  show ?case
  proof (cases pat)
    case Nil
    with less.prems show ?thesis by simp
  next
    case (Cons sp rest)
    obtain s0 p0 where sp: "sp = (s0, p0)" by (cases sp)
    from less.prems(1) Cons sp have c: "consume ((s0, p0) # rest) ns extras = Parsed a" by simp
    from c show ?thesis
    proof (cases rule: consume_Parsed_cases)
      case (explicit act os sep e)
      with less.hyps [of rest "store act e ns"] less.prems(2) Cons sp show ?thesis by auto
    next
      case (separate act os sep v rest')
      with less.hyps [of rest' "store act v ns"] less.prems(2) Cons sp show ?thesis by auto
    qed
  qed
qed

lemma pattern_tokens:
  "arg_strings_pattern argv = Some pat \<Longrightarrow> (s, Opt t) \<in> set pat \<Longrightarrow>
   s \<in> set argv \<and> parse_optional s = Optional t"
proof (induction argv arbitrary: pat)
  case Nil
  then show ?case by simp
next
  case (Cons x argv)
  show ?case
  proof (cases "x = ''--''")
    case True
    with Cons.prems show ?thesis by auto
  next
    case False
    show ?thesis
    proof (cases "parse_optional x")
      case Positional
      with Cons.prems False obtain z where "arg_strings_pattern argv = Some z" "pat = (x, Arg) # z"
        by auto
      with Cons.IH [of z] Cons.prems(2) show ?thesis by auto
    next
      case (Optional u)
      with Cons.prems False obtain z where "arg_strings_pattern argv = Some z" "pat = (x, Opt u) # z"
        by auto
      with Cons.IH [of z] Cons.prems(2) Optional show ?thesis by auto
    next
      case Ambiguous
      with Cons.prems False show ?thesis by simp
    qed
  qed
qed

lemma pattern_covers:
  "arg_strings_pattern argv = Some pat \<Longrightarrow> (\<forall>s. (s, DoubleDash) \<notin> set pat) \<Longrightarrow> x \<in> set argv \<Longrightarrow>
   x \<noteq> ''--'' \<and> (parse_optional x = Positional \<or>
                  (\<exists>t. (x, Opt t) \<in> set pat \<and> parse_optional x = Optional t))"
proof (induction argv arbitrary: pat)
  case Nil
  then show ?case by simp
next
  case (Cons y argv)
  from Cons.prems(1,2) have y: "y \<noteq> ''--''" by (auto split: if_splits)
  show ?case
  proof (cases "parse_optional y")
    case Positional
    with Cons.prems y obtain z where z: "arg_strings_pattern argv = Some z" "pat = (y, Arg) # z"
      by auto
    with Cons.IH [of z] Cons.prems(2,3) Positional y show ?thesis by auto
  next
    case (Optional u)
    with Cons.prems y obtain z where z: "arg_strings_pattern argv = Some z" "pat = (y, Opt u) # z"
      by auto
    with Cons.IH [of z] Cons.prems(2,3) Optional y show ?thesis by auto
  next
    case Ambiguous
    with Cons.prems y show ?thesis by simp
  qed
qed

lemma get_option_tuples_known:
  "OptionTuple (Some act) os sep e \<in> set (get_option_tuples s) \<Longrightarrow>
   (os, act) \<in> set option_string_actions"
  by (auto simp: get_option_tuples_def split: list.splits if_splits prod.splits)

lemma parse_optional_known:
  assumes "parse_optional s = Optional (OptionTuple (Some act) os sep e)"
  shows "(os, act) \<in> set option_string_actions"
proof (cases "map_of option_string_actions s")
  case (Some a)
  with assms have "a = act" "os = s"
    by (auto simp: parse_optional_def split: if_splits)
  with Some show ?thesis by (simp add: map_of_SomeD)
next
  case None
  obtain p ea where pe: "partition_eq s = (p, ea)" by fastforce
  show ?thesis
  proof (cases "\<exists>x a. ea = Some x \<and> map_of option_string_actions p = Some a")
    case True
    then obtain x a where x: "ea = Some x" "map_of option_string_actions p = Some a" by blast
    with assms None pe have "a = act" "os = p"
      by (auto simp: parse_optional_def split: if_splits)
    with x(2) show ?thesis by (simp add: map_of_SomeD)
  next
    case False
    with assms None pe have "get_option_tuples s = [OptionTuple (Some act) os sep e]"
      by (auto simp: parse_optional_def split: option.splits list.splits if_splits)
    then have "OptionTuple (Some act) os sep e \<in> set (get_option_tuples s)" by simp
    then show ?thesis by (rule get_option_tuples_known)
  qed
qed

lemma store_option_strings:
  "(os, act) \<in> set option_string_actions \<Longrightarrow> act \<noteq> Help \<Longrightarrow>
   os \<in> {''--base-url'', ''--api-key'', ''--encoding''}"
  by (auto simp: option_string_actions_def)

lemma parse_args_default_encoding:
  assumes "parse_args argv = Parsed a" and "\<forall>s \<in> set argv. \<not> selects_encoding s"
  shows "encoding a = ''utf-8''"
proof -
  from assms(1) obtain pat where pat: "arg_strings_pattern argv = Some pat"
    and c: "consume pat default_args [] = Parsed a"
    by (auto simp: parse_args_def split: option.splits)
  have "(s, Opt (OptionTuple (Some StoreEncoding) os sep e)) \<notin> set pat" for s os sep e
  proof
    assume "(s, Opt (OptionTuple (Some StoreEncoding) os sep e)) \<in> set pat"
    from pattern_tokens [OF pat this] have "s \<in> set argv" "selects_encoding s"
      by (auto dest: encoding_option_selected)
    with assms(2) show False by blast
  qed
  with consume_encoding [OF c] show ?thesis by (simp add: default_args_def)
qed

lemma parse_args_accepted_options:
  assumes "parse_args argv = Parsed a" and "s \<in> set argv"
  shows "s \<noteq> ''--'' \<and>
         (parse_optional s = Positional \<or>
          (\<exists>act os sep e. parse_optional s = Optional (OptionTuple (Some act) os sep e) \<and>
             os \<in> {''--base-url'', ''--api-key'', ''--encoding''}))"
proof -
  from assms(1) obtain pat where pat: "arg_strings_pattern argv = Some pat"
    and c: "consume pat default_args [] = Parsed a"
    by (auto simp: parse_args_def split: option.splits)
  have nd: "\<forall>x. (x, DoubleDash) \<notin> set pat"
    using consume_accepts [OF c] by fastforce
  from pattern_covers [OF pat nd assms(2)] have d: "s \<noteq> ''--''"
    and k: "parse_optional s = Positional \<or>
            (\<exists>t. (s, Opt t) \<in> set pat \<and> parse_optional s = Optional t)" by auto
  from k show ?thesis
  proof
    assume "parse_optional s = Positional"
    with d show ?thesis by simp
  next
    assume "\<exists>t. (s, Opt t) \<in> set pat \<and> parse_optional s = Optional t"
    then obtain t where t: "(s, Opt t) \<in> set pat" "parse_optional s = Optional t" by blast
    from consume_accepts [OF c t(1)] obtain act os sep e
      where a: "t = OptionTuple (Some act) os sep e" "act \<noteq> Help" by auto
    from parse_optional_known [of s act os sep e] t(2) a(1)
    have "(os, act) \<in> set option_string_actions" by simp
    from store_option_strings [OF this a(2)] t(2) a(1) d show ?thesis by blast
  qed
qed

lemma parse_base_url:
  "parse_args [''--base'', ''http://h'', ''--api-key=k''] =
     Parsed \<lparr>base_url = Some ''http://h'', api_key = Some ''k'', encoding = ''utf-8''\<rparr>"
  by (simp add: parse_args_def parse_optional_def option_string_actions_def default_args_def
      get_option_tuples_def negative_number_def is_digit_def)

text \<open>
  C8, as stated, fails: \<^verbatim>\<open>--enc latin-1\<close> does not contain \<^verbatim>\<open>--encoding\<close> and sets the
  encoding to \<^verbatim>\<open>latin-1\<close>, because \<^verbatim>\<open>argparse\<close> accepts abbreviations; and the parser
  also accepts \<^verbatim>\<open>--help\<close>, which it adds itself.
\<close>

theorem parse_args_counterexample:
  "''--encoding'' \<notin> set [''--enc'', ''latin-1''] \<and>
   parse_args [''--enc'', ''latin-1''] =
     Parsed \<lparr>base_url = None, api_key = None, encoding = ''latin-1''\<rparr> \<and>
   parse_args [''--help''] = HelpShown"
  by (simp add: parse_args_def parse_optional_def option_string_actions_def default_args_def
      get_option_tuples_def)

text \<open>
  C8, amended. When \<^verbatim>\<open>parse_args\<close> accepts an argument list in which no argument selects
  the encoding option (\<^verbatim>\<open>--encoding\<close>, a prefix of it from \<^verbatim>\<open>--e\<close> on, or either with
  \<^verbatim>\<open>=value\<close> attached), the encoding is \<^verbatim>\<open>utf-8\<close>. Every argument of an accepted list
  is a plain value or an option that resolves to \<^verbatim>\<open>--base-url\<close>, \<^verbatim>\<open>--api-key\<close> or
  \<^verbatim>\<open>--encoding\<close> (written in full, abbreviated, or with \<^verbatim>\<open>=value\<close> attached).
\<close>

theorem parse_args_accepted:
  "(parse_args argv = Parsed a \<and> (\<forall>s \<in> set argv. \<not> selects_encoding s)
      \<longrightarrow> encoding a = ''utf-8'') \<and>
   (parse_args argv = Parsed a \<and> s \<in> set argv
      \<longrightarrow> s \<noteq> ''--'' \<and>
          (parse_optional s = Positional \<or>
           (\<exists>act os sep e. parse_optional s = Optional (OptionTuple (Some act) os sep e) \<and>
              os \<in> {''--base-url'', ''--api-key'', ''--encoding''})))"
  using parse_args_default_encoding [of argv a] parse_args_accepted_options [of argv a s]
  by blast

theorem parse_args_accepted_witness:
  "(\<exists>a. parse_args [''--base'', ''http://h'', ''--api-key=k''] = Parsed a \<and>
        encoding a = ''utf-8'') \<and>
   (\<exists>act os sep e. parse_optional ''--base'' = Optional (OptionTuple (Some act) os sep e) \<and>
        os \<in> {''--base-url'', ''--api-key'', ''--encoding''})"
proof -
  have n: "\<forall>s \<in> set [''--base'', ''http://h'', ''--api-key=k'']. \<not> selects_encoding s"
    by (simp add: selects_encoding_def)
  have p: "parse_optional ''--base'' \<noteq> Positional"
    by (simp add: parse_optional_def option_string_actions_def get_option_tuples_def)
  from parse_args_accepted [of "[''--base'', ''http://h'', ''--api-key=k'']"
      "\<lparr>base_url = Some ''http://h'', api_key = Some ''k'', encoding = ''utf-8''\<rparr>" "''--base''"]
    parse_base_url n p
  show ?thesis by simp
qed

end
